theory Spec2Isabelle
  imports Main
begin

section \<open>Values, errors and promises\<close>

text \<open>
  Records handed to the proxy are JavaScript values. The proxy looks at two things only:
  whether a value is an array (\<^verbatim>\<open>Array.isArray\<close>) and which property names a
  \<^verbatim>\<open>for (const key in record)\<close> loop visits. An object lists its fields in
  enumeration order; strings are kept as UTF-8 text.
\<close>

datatype jsval =
    JUndefined
  | JNull
  | JBool bool
  | JNumber int
  | JString string
  | JArray "jsval list"
  | JObject "(string \<times> jsval) list"

fun isArray :: "jsval \<Rightarrow> bool" where
  "isArray (JArray _) = True"
| "isArray _ = False"

fun elems :: "jsval \<Rightarrow> jsval list" where
  "elems (JArray xs) = xs"
| "elems _ = []"

text \<open>Decimal rendering of an array index or a position, as a template literal prints it.\<close>

definition digit :: "nat \<Rightarrow> char" where
  "digit d = char_of (48 + d)"

fun dec :: "nat \<Rightarrow> string" where
  "dec n = (if n < 10 then [digit n] else dec (n div 10) @ [digit (n mod 10)])"

declare dec.simps [simp del]

text \<open>
  The number of UTF-16 code units of a text given in UTF-8: every byte that is not a
  continuation byte starts a character, and a four-byte character takes two units.
\<close>

definition utf16_length :: "string \<Rightarrow> nat" where
  "utf16_length s =
     length (filter (\<lambda>c. \<not> (128 \<le> (of_char c :: nat) \<and> (of_char c :: nat) < 192)) s)
     + length (filter (\<lambda>c. 240 \<le> (of_char c :: nat)) s)"

text \<open>
  The keys of \<^verbatim>\<open>for (const key in record)\<close>: the fields of an object, the indices of
  an array or of a string, and nothing for the other primitives.
\<close>

fun for_in_keys :: "jsval \<Rightarrow> string list" where
  "for_in_keys (JObject fields) = map fst fields"
| "for_in_keys (JArray xs) = map dec [0..<length xs]"
| "for_in_keys (JString s) = map dec [0..<utf16_length s]"
| "for_in_keys _ = []"

text \<open>
  An error object: its name, its message and, for the wrapped library's bulk error, the
  failures by position in the order \<^verbatim>\<open>Object.entries\<close> lists them, each failure as
  the text its string conversion gives.
\<close>

datatype error = Error (err_name: string) (message: string) (failuresByPos: "(nat \<times> string) list")

definition new_Error :: "string \<Rightarrow> error" where
  "new_Error msg = Error ''Error'' msg []"

text \<open>A settled promise.\<close>

datatype 'a promise = Fulfilled 'a | Rejected error

text \<open>\<^verbatim>\<open>promise.catch(handler)\<close> and the wrapped library's \<^verbatim>\<open>promise.catch(name, handler)\<close>.\<close>

definition promise_catch :: "(error \<Rightarrow> 'a promise) \<Rightarrow> 'a promise \<Rightarrow> 'a promise" where
  "promise_catch handler pr = (case pr of Fulfilled v \<Rightarrow> Fulfilled v | Rejected e \<Rightarrow> handler e)"

definition promise_catch_named ::
  "string \<Rightarrow> (error \<Rightarrow> 'a option promise) \<Rightarrow> 'a promise \<Rightarrow> 'a option promise" where
  "promise_catch_named nm handler pr =
     (case pr of
        Fulfilled v \<Rightarrow> Fulfilled (Some v)
      | Rejected e \<Rightarrow> if err_name e = nm then handler e else Rejected e)"

section \<open>Message texts\<close>

text \<open>The Korean message fragments of the source's template literals, spelled in UTF-8.\<close>

definition msg_invalid_table :: string where
  "msg_invalid_table =
     [CHR 0xEC, CHR 0x9D, CHR 0x80, CHR 0x20, CHR 0xEC, CHR 0x9C, CHR 0xA0, CHR 0xED, CHR
      0x9A, CHR 0xA8, CHR 0xED, CHR 0x95, CHR 0x98, CHR 0xEC, CHR 0xA7, CHR 0x80, CHR 0x20,
      CHR 0xEC, CHR 0x95, CHR 0x8A, CHR 0xEC, CHR 0x9D, CHR 0x80, CHR 0x20, CHR 0xED, CHR
      0x85, CHR 0x8C, CHR 0xEC, CHR 0x9D, CHR 0xB4, CHR 0xEB, CHR 0xB8, CHR 0x94, CHR 0xEC,
      CHR 0x9E, CHR 0x85, CHR 0xEB, CHR 0x8B, CHR 0x88, CHR 0xEB, CHR 0x8B, CHR 0xA4, CHR
      0x2E]"

definition msg_drop_failed :: string where
  "msg_drop_failed =
     [CHR 0xED, CHR 0x85, CHR 0x8C, CHR 0xEC, CHR 0x9D, CHR 0xB4, CHR 0xEB, CHR 0xB8, CHR
      0x94, CHR 0xEC, CHR 0x9D, CHR 0x84, CHR 0x20, CHR 0xEC, CHR 0x82, CHR 0xAD, CHR 0xEC,
      CHR 0xA0, CHR 0x9C, CHR 0xED, CHR 0x95, CHR 0x98, CHR 0xEB, CHR 0x8A, CHR 0x94, CHR
      0xEB, CHR 0x8D, CHR 0xB0, CHR 0x20, CHR 0xEC, CHR 0x8B, CHR 0xA4, CHR 0xED, CHR 0x8C,
      CHR 0xA8, CHR 0xED, CHR 0x95, CHR 0x98, CHR 0xEC, CHR 0x98, CHR 0x80, CHR 0xEC, CHR
      0x8A, CHR 0xB5, CHR 0xEB, CHR 0x8B, CHR 0x88, CHR 0xEB, CHR 0x8B, CHR 0xA4, CHR 0x2E,
      CHR 0x20]"

definition msg_update_schema_failed :: string where
  "msg_update_schema_failed =
     [CHR 0xEC, CHR 0x8A, CHR 0xA4, CHR 0xED, CHR 0x82, CHR 0xA4, CHR 0xEB, CHR 0xA7, CHR
      0x88, CHR 0xEB, CHR 0xA5, CHR 0xBC, CHR 0x20, CHR 0xEC, CHR 0x97, CHR 0x85, CHR 0xEB,
      CHR 0x8D, CHR 0xB0, CHR 0xEC, CHR 0x9D, CHR 0xB4, CHR 0xED, CHR 0x8A, CHR 0xB8, CHR
      0x20, CHR 0xED, CHR 0x95, CHR 0x98, CHR 0xEB, CHR 0x8A, CHR 0x94, CHR 0xEB, CHR 0x8D,
      CHR 0xB0, CHR 0x20, CHR 0xEC, CHR 0x8B, CHR 0xA4, CHR 0xED, CHR 0x8C, CHR 0xA8, CHR
      0xED, CHR 0x95, CHR 0x98, CHR 0xEC, CHR 0x98, CHR 0x80, CHR 0xEC, CHR 0x8A, CHR 0xB5,
      CHR 0xEB, CHR 0x8B, CHR 0x88, CHR 0xEB, CHR 0x8B, CHR 0xA4, CHR 0x2E, CHR 0x20]"

definition msg_get_failed :: string where
  "msg_get_failed =
     [CHR 0xEB, CHR 0x8D, CHR 0xB0, CHR 0xEC, CHR 0x9D, CHR 0xB4, CHR 0xED, CHR 0x84, CHR
      0xB0, CHR 0xEB, CHR 0xA5, CHR 0xBC, CHR 0x20, CHR 0xEA, CHR 0xB0, CHR 0x80, CHR 0xEC,
      CHR 0xA0, CHR 0xB8, CHR 0xEC, CHR 0x98, CHR 0xA4, CHR 0xEB, CHR 0x8A, CHR 0x94, CHR
      0xEB, CHR 0x8D, CHR 0xB0, CHR 0x20, CHR 0xEC, CHR 0x8B, CHR 0xA4, CHR 0xED, CHR 0x8C,
      CHR 0xA8, CHR 0xED, CHR 0x95, CHR 0x98, CHR 0xEC, CHR 0x98, CHR 0x80, CHR 0xEC, CHR
      0x8A, CHR 0xB5, CHR 0xEB, CHR 0x8B, CHR 0x88, CHR 0xEB, CHR 0x8B, CHR 0xA4, CHR 0x2E,
      CHR 0x20]"

definition msg_add_failed :: string where
  "msg_add_failed =
     [CHR 0xEB, CHR 0x93, CHR 0xB1, CHR 0xEB, CHR 0xA1, CHR 0x9D, CHR 0xED, CHR 0x95, CHR
      0x98, CHR 0xEB, CHR 0x8A, CHR 0x94, CHR 0xEB, CHR 0x8D, CHR 0xB0, CHR 0x20, CHR 0xEC,
      CHR 0x8B, CHR 0xA4, CHR 0xED, CHR 0x8C, CHR 0xA8, CHR 0xED, CHR 0x95, CHR 0x98, CHR
      0xEC, CHR 0x98, CHR 0x80, CHR 0xEC, CHR 0x8A, CHR 0xB5, CHR 0xEB, CHR 0x8B, CHR 0x88,
      CHR 0xEB, CHR 0x8B, CHR 0xA4, CHR 0x2E, CHR 0x20]"

definition msg_bulk_job :: string where
  "msg_bulk_job = [CHR 0xEC, CHR 0x9E, CHR 0x91, CHR 0xEC, CHR 0x97, CHR 0x85, CHR 0x20]"

definition msg_bulk_failed :: string where
  "msg_bulk_failed =
     [CHR 0x20, CHR 0xEC, CHR 0x8B, CHR 0xA4, CHR 0xED, CHR 0x8C, CHR 0xA8, CHR 0xED, CHR
      0x95, CHR 0x98, CHR 0xEC, CHR 0x98, CHR 0x80, CHR 0xEA, CHR 0xB3, CHR 0xA0, CHR 0x20,
      CHR 0xED, CHR 0x95, CHR 0xB4, CHR 0xEB, CHR 0x8B, CHR 0xB9, CHR 0x20, CHR 0xEC, CHR
      0x97, CHR 0x90, CHR 0xEB, CHR 0x9F, CHR 0xAC, CHR 0xEA, CHR 0xB0, CHR 0x80, CHR 0x20,
      CHR 0xEB, CHR 0xB0, CHR 0x9C, CHR 0xEC, CHR 0x83, CHR 0x9D, CHR 0xED, CHR 0x95, CHR
      0x98, CHR 0xEC, CHR 0x98, CHR 0x80, CHR 0xEC, CHR 0x8A, CHR 0xB5, CHR 0xEB, CHR 0x8B,
      CHR 0x88, CHR 0xEB, CHR 0x8B, CHR 0xA4, CHR 0x2E, CHR 0x20]"

definition msg_invalid_schema :: string where
  "msg_invalid_schema =
     [CHR 0xEB, CHR 0x8A, CHR 0x94, CHR 0x20, CHR 0xEC, CHR 0x9C, CHR 0xA0, CHR 0xED, CHR
      0x9A, CHR 0xA8, CHR 0xED, CHR 0x95, CHR 0x98, CHR 0xEC, CHR 0xA7, CHR 0x80, CHR 0x20,
      CHR 0xEC, CHR 0x95, CHR 0x8A, CHR 0xEC, CHR 0x9D, CHR 0x80, CHR 0x20, CHR 0xEC, CHR
      0x8A, CHR 0xA4, CHR 0xED, CHR 0x82, CHR 0xA4, CHR 0xEB, CHR 0xA7, CHR 0x88, CHR 0xEC,
      CHR 0x9E, CHR 0x85, CHR 0xEB, CHR 0x8B, CHR 0x88, CHR 0xEB, CHR 0x8B, CHR 0xA4, CHR
      0x2E]"

section \<open>The wrapped database handle\<close>

text \<open>
  The wrapped library is not part of the repository. Its handle is modelled by what the
  proxy reads from it (\<^verbatim>\<open>name\<close>, \<^verbatim>\<open>verno\<close>, the registered tables) and by the
  list of calls it has received, oldest first. What a call does inside the library is
  not decided by the proxy: each operation below takes the library's answer as an
  explicit outcome argument. The name of a handle is read-only in the library, and
  \<^verbatim>\<open>close()\<close> and \<^verbatim>\<open>open()\<close> do not throw (\<^verbatim>\<open>open()\<close> answers with a promise,
  which the proxy drops). Version numbers are natural numbers, zero on a handle that has
  no version yet.

  The call \<open>VersionStores n schema\<close> stands for the expression
  \<^verbatim>\<open>db.version(n).stores(schema)\<close> as the proxy evaluates it; a throw of the library
  may come from either step. A \<open>TableSchema\<close> lists the entries of the mapping in the
  order \<^verbatim>\<open>Object.keys\<close> gives, \<open>None\<close> for \<^verbatim>\<open>null\<close>.
\<close>

type_synonym TableSchema = "(string \<times> string option) list"

record IndexSpec =
  idx_name :: string

record ITableSchema =
  primKey :: IndexSpec
  idxByName :: "(string \<times> IndexSpec) list"

record Table =
  tbl_name :: string
  tbl_schema :: ITableSchema

datatype table_op =
    OpClear
  | OpGet jsval
  | OpAdd jsval
  | OpUpdate int jsval
  | OpDelete int
  | OpBulkGet "int list"
  | OpBulkAdd "jsval list"
  | OpBulkDelete "int list"

datatype dexie_call =
    Close
  | Open
  | VersionStores nat TableSchema
  | TableCall string table_op
  | Transaction string string table_op

record Dexie =
  db_name :: string
  verno :: nat
  tables :: "Table list"
  calls :: "dexie_call list"

text \<open>
  The answer of the library to \<^verbatim>\<open>version(n).stores(schema)\<close>: whether it throws, and
  the version number and the registered tables of the handle afterwards.
\<close>

record stores_outcome =
  st_thrown :: "error option"
  st_verno :: nat
  st_tables :: "Table list"

definition new_Dexie :: "string \<Rightarrow> Dexie" where
  "new_Dexie database = \<lparr>db_name = database, verno = 0, tables = [], calls = []\<rparr>"

definition Dexie_table :: "Dexie \<Rightarrow> string \<Rightarrow> error + Table" where
  "Dexie_table d tableName =
     (case find (\<lambda>t. tbl_name t = tableName) (tables d) of
        None \<Rightarrow> Inl (Error ''InvalidTableError'' (''Table '' @ tableName @ '' does not exist'') [])
      | Some t \<Rightarrow> Inr t)"

definition Dexie_close :: "Dexie \<Rightarrow> Dexie" where
  "Dexie_close d = d\<lparr>calls := calls d @ [Close]\<rparr>"

definition Dexie_open :: "Dexie \<Rightarrow> Dexie" where
  "Dexie_open d = d\<lparr>calls := calls d @ [Open]\<rparr>"

definition Dexie_version_stores ::
  "stores_outcome \<Rightarrow> nat \<Rightarrow> TableSchema \<Rightarrow> Dexie \<Rightarrow> (error + unit) \<times> Dexie" where
  "Dexie_version_stores oc n schema d =
     ((case st_thrown oc of Some e \<Rightarrow> Inl e | None \<Rightarrow> Inr ()),
      d\<lparr>verno := st_verno oc, tables := st_tables oc, calls := calls d @ [VersionStores n schema]\<rparr>)"

text \<open>A call on a table object outside a transaction; the library's promise is the outcome.\<close>

definition Table_call :: "'a \<Rightarrow> Table \<Rightarrow> table_op \<Rightarrow> Dexie \<Rightarrow> 'a \<times> Dexie" where
  "Table_call oc t opn d = (oc, d\<lparr>calls := calls d @ [TableCall (tbl_name t) opn]\<rparr>)"

text \<open>
  \<^verbatim>\<open>db.transaction(mode, table, scope)\<close>: the handle receives the transaction with the
  table operation its scope function performs, and the transaction settles as the scope
  function's promise does.
\<close>

definition Dexie_transaction ::
  "string \<Rightarrow> Table \<Rightarrow> table_op \<Rightarrow> 'a promise \<Rightarrow> Dexie \<Rightarrow> 'a promise \<times> Dexie" where
  "Dexie_transaction mode t opn scope d =
     (scope, d\<lparr>calls := calls d @ [Transaction mode (tbl_name t) opn]\<rparr>)"

section \<open>The proxy\<close>

text \<open>
  \<^verbatim>\<open>class IndexedDBProxy { private db: Dexie; ... }\<close>. A method that can throw returns
  \<open>Inl\<close> of the error thrown; a method that changes the handle returns the proxy
  afterwards as well.
\<close>

record IndexedDBProxy =
  db :: Dexie

definition new_IndexedDBProxy :: "string \<Rightarrow> IndexedDBProxy" where
  "new_IndexedDBProxy database = \<lparr>db = new_Dexie database\<rparr>"

definition getDatabaseName :: "IndexedDBProxy \<Rightarrow> string" where
  "getDatabaseName this = db_name (db this)"

definition getVersionNo :: "IndexedDBProxy \<Rightarrow> nat" where
  "getVersionNo this = verno (db this)"

text \<open>\<^verbatim>\<open>this.db.version(this.getVersionNo() || 1).stores(tableSchema)\<close>\<close>

definition createTable ::
  "stores_outcome \<Rightarrow> IndexedDBProxy \<Rightarrow> TableSchema \<Rightarrow> (error + unit) \<times> IndexedDBProxy" where
  "createTable oc this tableSchema =
     (let (r, d) = Dexie_version_stores oc
                     (if getVersionNo this = 0 then 1 else getVersionNo this) tableSchema (db this)
      in (r, this\<lparr>db := d\<rparr>))"

definition getTable :: "IndexedDBProxy \<Rightarrow> string \<Rightarrow> error + Table" where
  "getTable this tableName =
     (case Dexie_table (db this) tableName of
        Inr t \<Rightarrow> Inr t
      | Inl _ \<Rightarrow> Inl (new_Error (tableName @ msg_invalid_table)))"

definition getTableSchema :: "IndexedDBProxy \<Rightarrow> string \<Rightarrow> error + ITableSchema" where
  "getTableSchema this tableName =
     (case getTable this tableName of Inl e \<Rightarrow> Inl e | Inr t \<Rightarrow> Inr (tbl_schema t))"

definition clearTable :: "IndexedDBProxy \<Rightarrow> string \<Rightarrow> (error + unit) \<times> IndexedDBProxy" where
  "clearTable this tableName =
     (case getTable this tableName of
        Inl e \<Rightarrow> (Inl e, this)
      | Inr t \<Rightarrow> (let (r, d) = Table_call () t OpClear (db this) in (Inr r, this\<lparr>db := d\<rparr>)))"

text \<open>
  \<^verbatim>\<open>try { getTable; read verno; close; version(verno + 1).stores({[tableName]: null}) }
  catch (err) { throw new Error(`... ${err.message}`) } finally { open }\<close>
\<close>

definition dropTable ::
  "stores_outcome \<Rightarrow> IndexedDBProxy \<Rightarrow> string \<Rightarrow> (error + unit) \<times> IndexedDBProxy" where
  "dropTable oc this tableName =
     (let (r, d) =
            (case getTable this tableName of
               Inl err \<Rightarrow> (Inl err, db this)
             | Inr _ \<Rightarrow>
                 (let currentVersion = getVersionNo this
                  in Dexie_version_stores oc (currentVersion + 1) [(tableName, None)]
                       (Dexie_close (db this))));
          r' = (case r of
                  Inl err \<Rightarrow> Inl (new_Error (msg_drop_failed @ message err))
                | Inr u \<Rightarrow> Inr u)
      in (r', this\<lparr>db := Dexie_open d\<rparr>))"

text \<open>\<^verbatim>\<open>for (const tableName of Object.keys(schema)) this.getTable(tableName)\<close>\<close>

fun validExistTable_loop :: "IndexedDBProxy \<Rightarrow> string list \<Rightarrow> error + unit" where
  "validExistTable_loop this [] = Inr ()"
| "validExistTable_loop this (tableName # tableNames) =
     (case getTable this tableName of
        Inl e \<Rightarrow> Inl e
      | Inr _ \<Rightarrow> validExistTable_loop this tableNames)"

definition validExistTable :: "IndexedDBProxy \<Rightarrow> TableSchema \<Rightarrow> error + unit" where
  "validExistTable this schema = validExistTable_loop this (map fst schema)"

definition updateTableSchema ::
  "stores_outcome \<Rightarrow> IndexedDBProxy \<Rightarrow> TableSchema \<Rightarrow> (error + unit) \<times> IndexedDBProxy" where
  "updateTableSchema oc this schema =
     (let (r, d) =
            (case validExistTable this schema of
               Inl err \<Rightarrow> (Inl err, db this)
             | Inr _ \<Rightarrow>
                 (let currentVersion = getVersionNo this
                  in Dexie_version_stores oc (currentVersion + 1) schema (Dexie_close (db this))));
          r' = (case r of
                  Inl err \<Rightarrow> Inl (new_Error (msg_update_schema_failed @ message err))
                | Inr u \<Rightarrow> Inr u)
      in (r', this\<lparr>db := d\<rparr>))"

definition getTableList :: "IndexedDBProxy \<Rightarrow> string list" where
  "getTableList this = map tbl_name (tables (db this))"

text \<open>
  The loops of \<^verbatim>\<open>validExistTableSchema\<close>: the inner one over the keys of a record, the
  outer one over the records; the first key outside \<^verbatim>\<open>fieldNames\<close> throws.
\<close>

fun validate_keys :: "string list \<Rightarrow> string list \<Rightarrow> error + unit" where
  "validate_keys fieldNames [] = Inr ()"
| "validate_keys fieldNames (key # keys) =
     (if key \<notin> set fieldNames then Inl (new_Error (key @ msg_invalid_schema))
      else validate_keys fieldNames keys)"

fun validate_records :: "string list \<Rightarrow> jsval list \<Rightarrow> error + unit" where
  "validate_records fieldNames [] = Inr ()"
| "validate_records fieldNames (record # records) =
     (case validate_keys fieldNames (for_in_keys record) of
        Inl e \<Rightarrow> Inl e
      | Inr _ \<Rightarrow> validate_records fieldNames records)"

definition validExistTableSchema :: "IndexedDBProxy \<Rightarrow> string \<Rightarrow> jsval \<Rightarrow> error + unit" where
  "validExistTableSchema this tableName checkData =
     (let records = (if \<not> isArray checkData then [checkData] else elems checkData)
      in case getTableSchema this tableName of
           Inl e \<Rightarrow> Inl e
         | Inr schema \<Rightarrow>
             (let primKeyName = idx_name (primKey schema);
                  fieldNames = map fst (idxByName schema) @ [primKeyName]
              in validate_records fieldNames records))"

text \<open>
  \<^verbatim>\<open>try { return this.getTable(tableName).get(option) } catch (err) { throw ... }\<close>.
  This is the one table call the source guards, so its outcome may be a throw of the
  library as well as a promise; the other table calls and \<^verbatim>\<open>db.transaction\<close> answer
  with a promise.
\<close>

definition get ::
  "error + jsval promise \<Rightarrow> IndexedDBProxy \<Rightarrow> string \<Rightarrow> jsval
     \<Rightarrow> (error + jsval promise) \<times> IndexedDBProxy" where
  "get oc this tableName option =
     (case getTable this tableName of
        Inl err \<Rightarrow> (Inl (new_Error (msg_get_failed @ message err)), this)
      | Inr t \<Rightarrow>
          (let (r, d) = Table_call oc t (OpGet option) (db this)
           in ((case r of
                  Inl err \<Rightarrow> Inl (new_Error (msg_get_failed @ message err))
                | Inr pr \<Rightarrow> Inr pr),
               this\<lparr>db := d\<rparr>)))"

definition liveQuery :: "IndexedDBProxy \<Rightarrow> string \<Rightarrow> (Table \<Rightarrow> 'r promise) \<Rightarrow> error + 'r promise" where
  "liveQuery this tableName queryCallback =
     (case getTable this tableName of
        Inl e \<Rightarrow> Inl e
      | Inr table \<Rightarrow> Inr (queryCallback table))"

text \<open>
  In the data operations the outcome argument is the promise of the table operation
  performed by the transaction's scope function.
\<close>

definition add ::
  "int promise \<Rightarrow> IndexedDBProxy \<Rightarrow> string \<Rightarrow> jsval \<Rightarrow> (error + int promise) \<times> IndexedDBProxy" where
  "add oc this tableName item =
     (case validExistTableSchema this tableName item of
        Inl e \<Rightarrow> (Inl e, this)
      | Inr _ \<Rightarrow>
          (case getTable this tableName of
             Inl e \<Rightarrow> (Inl e, this)
           | Inr t \<Rightarrow>
               (let (pr, d) = Dexie_transaction ''rw'' t (OpAdd item) oc (db this)
                in (Inr (promise_catch
                           (\<lambda>err. Rejected (new_Error (msg_add_failed @ message err))) pr),
                    this\<lparr>db := d\<rparr>))))"

definition update ::
  "int promise \<Rightarrow> IndexedDBProxy \<Rightarrow> string \<Rightarrow> int \<Rightarrow> jsval
     \<Rightarrow> (error + int promise) \<times> IndexedDBProxy" where
  "update oc this tableName primaryKey changeData =
     (case validExistTableSchema this tableName changeData of
        Inl e \<Rightarrow> (Inl e, this)
      | Inr _ \<Rightarrow>
          (case getTable this tableName of
             Inl e \<Rightarrow> (Inl e, this)
           | Inr t \<Rightarrow>
               (let (pr, d) = Dexie_transaction ''rw'' t (OpUpdate primaryKey changeData) oc (db this)
                in (Inr pr, this\<lparr>db := d\<rparr>))))"

definition delete ::
  "unit promise \<Rightarrow> IndexedDBProxy \<Rightarrow> string \<Rightarrow> int \<Rightarrow> (error + unit promise) \<times> IndexedDBProxy" where
  "delete oc this tableName primaryKey =
     (case getTable this tableName of
        Inl e \<Rightarrow> (Inl e, this)
      | Inr t \<Rightarrow>
          (let (pr, d) = Dexie_transaction ''rw'' t (OpDelete primaryKey) oc (db this)
           in (Inr pr, this\<lparr>db := d\<rparr>)))"

definition bulkGet ::
  "jsval list promise \<Rightarrow> IndexedDBProxy \<Rightarrow> string \<Rightarrow> int list
     \<Rightarrow> (error + jsval list promise) \<times> IndexedDBProxy" where
  "bulkGet oc this tableName primaryKeys =
     (case getTable this tableName of
        Inl e \<Rightarrow> (Inl e, this)
      | Inr t \<Rightarrow>
          (let (r, d) = Table_call oc t (OpBulkGet primaryKeys) (db this)
           in (Inr r, this\<lparr>db := d\<rparr>)))"

text \<open>
  The handler of \<^verbatim>\<open>.catch('BulkError', ...)\<close>: the loop over
  \<^verbatim>\<open>Object.entries(err.failuresByPos)\<close> throws in its first round; with no entry the
  handler returns \<^verbatim>\<open>undefined\<close>.
\<close>

definition bulkError_handler :: "error \<Rightarrow> int option promise" where
  "bulkError_handler err =
     (case failuresByPos err of
        [] \<Rightarrow> Fulfilled None
      | (pos, error) # _ \<Rightarrow>
          Rejected (new_Error (msg_bulk_job @ dec pos @ msg_bulk_failed @ error)))"

definition bulkAdd ::
  "int promise \<Rightarrow> IndexedDBProxy \<Rightarrow> string \<Rightarrow> jsval list
     \<Rightarrow> (error + int option promise) \<times> IndexedDBProxy" where
  "bulkAdd oc this tableName items =
     (case validExistTableSchema this tableName (JArray items) of
        Inl e \<Rightarrow> (Inl e, this)
      | Inr _ \<Rightarrow>
          (case getTable this tableName of
             Inl e \<Rightarrow> (Inl e, this)
           | Inr t \<Rightarrow>
               (let (lastKey, d) =
                      Dexie_transaction ''rw'' t (OpBulkAdd items)
                        (promise_catch_named ''BulkError'' bulkError_handler oc) (db this)
                in (Inr lastKey, this\<lparr>db := d\<rparr>))))"

definition bulkDelete ::
  "unit promise \<Rightarrow> IndexedDBProxy \<Rightarrow> string \<Rightarrow> int list
     \<Rightarrow> (error + unit promise) \<times> IndexedDBProxy" where
  "bulkDelete oc this tableName primaryKeys =
     (case getTable this tableName of
        Inl e \<Rightarrow> (Inl e, this)
      | Inr t \<Rightarrow>
          (let (pr, d) = Dexie_transaction ''rw'' t (OpBulkDelete primaryKeys) oc (db this)
           in (Inr pr, this\<lparr>db := d\<rparr>)))"

definition useIndexedDB :: "string \<Rightarrow> IndexedDBProxy" where
  "useIndexedDB database = new_IndexedDBProxy database"

section \<open>The plugin\<close>

text \<open>
  \<^verbatim>\<open>install: (app) => { app.config.globalProperties.$indexedDB = (dbName) => useIndexedDB(dbName) }\<close>
\<close>

record AppConfig =
  globalProperties :: "string \<rightharpoonup> (string \<Rightarrow> IndexedDBProxy)"

record App =
  config :: AppConfig

definition install :: "App \<Rightarrow> App" where
  "install app =
     app\<lparr>config := (config app)\<lparr>globalProperties :=
       (globalProperties (config app))(''$indexedDB'' \<mapsto> (\<lambda>dbName. useIndexedDB dbName))\<rparr>\<rparr>"

section \<open>Sequences of public operations\<close>

text \<open>
  One constructor for every public method of the proxy, with its arguments and the
  library's answer where the method asks the library for one.
\<close>

datatype operation =
    CallCreateTable stores_outcome TableSchema
  | CallGetDatabaseName
  | CallGetVersionNo
  | CallGetTable string
  | CallGetTableSchema string
  | CallClearTable string
  | CallDropTable stores_outcome string
  | CallUpdateTableSchema stores_outcome TableSchema
  | CallGetTableList
  | CallGet "error + jsval promise" string jsval
  | CallLiveQuery string "Table \<Rightarrow> jsval promise"
  | CallAdd "int promise" string jsval
  | CallUpdate "int promise" string int jsval
  | CallDelete "unit promise" string int
  | CallBulkGet "jsval list promise" string "int list"
  | CallBulkAdd "int promise" string "jsval list"
  | CallBulkDelete "unit promise" string "int list"

text \<open>
  The proxy after an operation, whether the operation returned or threw. The callback of
  \<^verbatim>\<open>liveQuery\<close> is handed the table, not the proxy.
\<close>

fun perform :: "IndexedDBProxy \<Rightarrow> operation \<Rightarrow> IndexedDBProxy" where
  "perform this (CallCreateTable oc tableSchema) = snd (createTable oc this tableSchema)"
| "perform this CallGetDatabaseName = this"
| "perform this CallGetVersionNo = this"
| "perform this (CallGetTable tableName) = this"
| "perform this (CallGetTableSchema tableName) = this"
| "perform this (CallClearTable tableName) = snd (clearTable this tableName)"
| "perform this (CallDropTable oc tableName) = snd (dropTable oc this tableName)"
| "perform this (CallUpdateTableSchema oc schema) = snd (updateTableSchema oc this schema)"
| "perform this CallGetTableList = this"
| "perform this (CallGet oc tableName option) = snd (get oc this tableName option)"
| "perform this (CallLiveQuery tableName queryCallback) = this"
| "perform this (CallAdd oc tableName item) = snd (add oc this tableName item)"
| "perform this (CallUpdate oc tableName primaryKey changeData) =
     snd (update oc this tableName primaryKey changeData)"
| "perform this (CallDelete oc tableName primaryKey) = snd (delete oc this tableName primaryKey)"
| "perform this (CallBulkGet oc tableName primaryKeys) = snd (bulkGet oc this tableName primaryKeys)"
| "perform this (CallBulkAdd oc tableName items) = snd (bulkAdd oc this tableName items)"
| "perform this (CallBulkDelete oc tableName primaryKeys) =
     snd (bulkDelete oc this tableName primaryKeys)"

definition perform_all :: "IndexedDBProxy \<Rightarrow> operation list \<Rightarrow> IndexedDBProxy" where
  "perform_all this ops = foldl perform this ops"

section \<open>A running example\<close>

text \<open>
  A database \<open>myDB\<close> with one table \<open>users\<close>, primary key \<open>id\<close> and indexes
  \<open>name\<close> and \<open>age\<close>, as \<^verbatim>\<open>createTable({users: '++id, name, age'})\<close> on a new
  proxy leaves it when the library registers the table at version 1.
\<close>

definition example_users :: Table where
  "example_users =
     \<lparr>tbl_name = ''users'',
      tbl_schema = \<lparr>primKey = \<lparr>idx_name = ''id''\<rparr>,
                    idxByName = [(''name'', \<lparr>idx_name = ''name''\<rparr>), (''age'', \<lparr>idx_name = ''age''\<rparr>)]\<rparr>\<rparr>"

definition example_stored :: stores_outcome where
  "example_stored = \<lparr>st_thrown = None, st_verno = 1, st_tables = [example_users]\<rparr>"

definition example_proxy :: IndexedDBProxy where
  "example_proxy =
     snd (createTable example_stored (useIndexedDB ''myDB'') [(''users'', Some ''++id, name, age'')])"

section \<open>Resolving tables\<close>

lemma getTableList_find_None:
  "tableName \<notin> set (getTableList this) \<Longrightarrow> find (\<lambda>t. tbl_name t = tableName) (tables (db this)) = None"
  by (auto simp: getTableList_def find_None_iff)

lemma getTableList_find_Some:
  "tableName \<in> set (getTableList this) \<Longrightarrow> \<exists>t. find (\<lambda>t. tbl_name t = tableName) (tables (db this)) = Some t \<and> tbl_name t = tableName"
  by (cases "find (\<lambda>t. tbl_name t = tableName) (tables (db this))")
     (auto simp: getTableList_def find_None_iff dest: find_Some_iff[THEN iffD1])

lemma getTable_unknown:
  "tableName \<notin> set (getTableList this) \<Longrightarrow> getTable this tableName = Inl (new_Error (tableName @ msg_invalid_table))"
  by (simp add: getTable_def Dexie_table_def getTableList_find_None)

lemma getTable_known:
  "tableName \<in> set (getTableList this) \<Longrightarrow> \<exists>t. getTable this tableName = Inr t \<and> tbl_name t = tableName"
  using getTableList_find_Some[of tableName this] by (auto simp: getTable_def Dexie_table_def)

lemma getTable_Inr_name: "getTable this tableName = Inr t \<Longrightarrow> tbl_name t = tableName"
  by (auto simp: getTable_def Dexie_table_def split: option.splits dest: find_Some_iff[THEN iffD1])

lemma getTableSchema_Inr_getTable:
  "getTableSchema this tableName = Inr schema \<Longrightarrow> \<exists>t. getTable this tableName = Inr t \<and> tbl_schema t = schema"
  by (auto simp: getTableSchema_def split: sum.splits)

lemma validExistTableSchema_Inr_getTable:
  "validExistTableSchema this tableName checkData = Inr u \<Longrightarrow> \<exists>t. getTable this tableName = Inr t"
  by (auto simp: validExistTableSchema_def getTableSchema_def Let_def split: sum.splits)

section \<open>The validation loops\<close>

text \<open>Each loop stops at the first offending entry, which \<open>find\<close> names.\<close>

lemma find_append_cases:
  "find P (xs @ ys) = (case find P xs of None \<Rightarrow> find P ys | Some x \<Rightarrow> Some x)"
  by (induction xs) simp_all

lemma find_Some_bad:
  "find P xs = Some x \<Longrightarrow> x \<in> set xs \<and> P x"
  by (induction xs) (auto split: if_splits)

lemma validate_keys_find:
  "validate_keys fieldNames keys =
     (case find (\<lambda>key. key \<notin> set fieldNames) keys of
        None \<Rightarrow> Inr ()
      | Some key \<Rightarrow> Inl (new_Error (key @ msg_invalid_schema)))"
  by (induction keys) simp_all

lemma validate_records_find:
  "validate_records fieldNames records =
     (case find (\<lambda>key. key \<notin> set fieldNames) (concat (map for_in_keys records)) of
        None \<Rightarrow> Inr ()
      | Some key \<Rightarrow> Inl (new_Error (key @ msg_invalid_schema)))"
proof (induction records)
  case Nil
  then show ?case by simp
next
  case (Cons r rs)
  show ?case
  proof (cases "find (\<lambda>key. key \<notin> set fieldNames) (for_in_keys r)")
    case None
    then show ?thesis
      using Cons by (simp add: validate_keys_find find_append_cases)
  next
    case (Some key)
    then show ?thesis
      by (simp add: validate_keys_find find_append_cases)
  qed
qed

lemma validExistTableSchema_find:
  assumes "getTableSchema this tableName = Inr schema"
  shows "validExistTableSchema this tableName checkData =
     (case find (\<lambda>key. key \<notin> set (map fst (idxByName schema) @ [idx_name (primKey schema)]))
             (concat (map for_in_keys (if isArray checkData then elems checkData else [checkData]))) of
        None \<Rightarrow> Inr ()
      | Some key \<Rightarrow> Inl (new_Error (key @ msg_invalid_schema)))"
  using assms by (simp add: validExistTableSchema_def validate_records_find Let_def)

lemma validExistTable_loop_find:
  "validExistTable_loop this tableNames =
     (case find (\<lambda>tableName. tableName \<notin> set (getTableList this)) tableNames of
        None \<Rightarrow> Inr ()
      | Some tableName \<Rightarrow> Inl (new_Error (tableName @ msg_invalid_table)))"
proof (induction tableNames)
  case Nil
  then show ?case by simp
next
  case (Cons n ns)
  show ?case
  proof (cases "n \<in> set (getTableList this)")
    case True
    then obtain t where "getTable this n = Inr t"
      using getTable_known by blast
    with True Cons show ?thesis by simp
  next
    case False
    then show ?thesis
      by (simp add: getTable_unknown)
  qed
qed

section \<open>The example evaluated\<close>

lemma example_proxy_eq:
  "example_proxy =
     \<lparr>db = \<lparr>db_name = ''myDB'', verno = 1, tables = [example_users],
             calls = [VersionStores 1 [(''users'', Some ''++id, name, age'')]]\<rparr>\<rparr>"
  by (simp add: example_proxy_def createTable_def useIndexedDB_def new_IndexedDBProxy_def
      new_Dexie_def Dexie_version_stores_def getVersionNo_def example_stored_def)

lemma example_getTable_users: "getTable example_proxy ''users'' = Inr example_users"
  by (simp add: example_proxy_eq getTable_def Dexie_table_def example_users_def)

lemma example_getTableList: "getTableList example_proxy = [''users'']"
  by (simp add: example_proxy_eq getTableList_def example_users_def)

lemma example_getTableSchema_users:
  "getTableSchema example_proxy ''users'' = Inr (tbl_schema example_users)"
  by (simp add: getTableSchema_def example_getTable_users)

section \<open>The database name under the operations\<close>

lemma db_name_version_stores [simp]:
  "db_name (snd (Dexie_version_stores oc n schema d)) = db_name d"
  by (simp add: Dexie_version_stores_def)

lemma perform_keeps_name: "getDatabaseName (perform this op) = getDatabaseName this"
proof (cases op)
  case (CallCreateTable oc tableSchema)
  then show ?thesis
    by (simp add: getDatabaseName_def createTable_def Dexie_version_stores_def)
next
  case (CallClearTable tableName)
  then show ?thesis
    by (simp add: getDatabaseName_def clearTable_def Table_call_def split: sum.splits)
next
  case (CallDropTable oc tableName)
  then show ?thesis
    by (simp add: getDatabaseName_def dropTable_def Dexie_version_stores_def Dexie_close_def
        Dexie_open_def split: sum.splits prod.splits)
next
  case (CallUpdateTableSchema oc schema)
  then show ?thesis
    by (simp add: getDatabaseName_def updateTableSchema_def Dexie_version_stores_def
        Dexie_close_def split: sum.splits prod.splits)
next
  case (CallGet oc tableName option)
  then show ?thesis
    by (simp add: getDatabaseName_def get_def Table_call_def split: sum.splits)
next
  case (CallAdd oc tableName item)
  then show ?thesis
    by (simp add: getDatabaseName_def add_def Dexie_transaction_def split: sum.splits)
next
  case (CallUpdate oc tableName primaryKey changeData)
  then show ?thesis
    by (simp add: getDatabaseName_def update_def Dexie_transaction_def split: sum.splits)
next
  case (CallDelete oc tableName primaryKey)
  then show ?thesis
    by (simp add: getDatabaseName_def delete_def Dexie_transaction_def split: sum.splits)
next
  case (CallBulkGet oc tableName primaryKeys)
  then show ?thesis
    by (simp add: getDatabaseName_def bulkGet_def Table_call_def split: sum.splits)
next
  case (CallBulkAdd oc tableName items)
  then show ?thesis
    by (simp add: getDatabaseName_def bulkAdd_def Dexie_transaction_def split: sum.splits)
next
  case (CallBulkDelete oc tableName primaryKeys)
  then show ?thesis
    by (simp add: getDatabaseName_def bulkDelete_def Dexie_transaction_def split: sum.splits)
qed simp_all

lemma perform_all_keeps_name: "getDatabaseName (perform_all this ops) = getDatabaseName this"
  unfolding perform_all_def
  by (induction ops arbitrary: this) (simp_all add: perform_keeps_name)

section \<open>The claims\<close>

text \<open>
  C1. Take a registered table, with \<open>fieldNames\<close> its index names followed by the name of
  its primary key. When a record handed to \<^verbatim>\<open>add\<close>, \<^verbatim>\<open>update\<close> or
  \<^verbatim>\<open>bulkAdd\<close> has a key outside \<open>fieldNames\<close>, the operation throws the error whose
  message is such a key followed by the invalid-schema text, and the proxy is left as it
  was: the handle has received nothing. When every key of every record is in
  \<open>fieldNames\<close>, the validation passes and the handle receives the transaction.
\<close>

theorem schema_validation_guards_writes:
  assumes schema: "getTableSchema this tableName = Inr schema"
    and fieldNames: "fieldNames = map fst (idxByName schema) @ [idx_name (primKey schema)]"
    and keys: "keys = concat (map for_in_keys (if isArray item then elems item else [item]))"
    and bulk_keys: "bulk_keys = concat (map for_in_keys items)"
  shows
    "((\<exists>key \<in> set keys. key \<notin> set fieldNames) \<longrightarrow>
        (\<exists>key \<in> set keys. key \<notin> set fieldNames
           \<and> validExistTableSchema this tableName item = Inl (new_Error (key @ msg_invalid_schema))
           \<and> add oc_add this tableName item = (Inl (new_Error (key @ msg_invalid_schema)), this)
           \<and> update oc_upd this tableName primaryKey item
                = (Inl (new_Error (key @ msg_invalid_schema)), this)))
     \<and> ((\<exists>key \<in> set bulk_keys. key \<notin> set fieldNames) \<longrightarrow>
        (\<exists>key \<in> set bulk_keys. key \<notin> set fieldNames
           \<and> validExistTableSchema this tableName (JArray items)
                = Inl (new_Error (key @ msg_invalid_schema))
           \<and> bulkAdd oc_bulk this tableName items
                = (Inl (new_Error (key @ msg_invalid_schema)), this)))
     \<and> ((\<forall>key \<in> set keys. key \<in> set fieldNames) \<longrightarrow>
          validExistTableSchema this tableName item = Inr ()
          \<and> calls (db (snd (add oc_add this tableName item)))
               = calls (db this) @ [Transaction ''rw'' tableName (OpAdd item)]
          \<and> calls (db (snd (update oc_upd this tableName primaryKey item)))
               = calls (db this) @ [Transaction ''rw'' tableName (OpUpdate primaryKey item)])
     \<and> ((\<forall>key \<in> set bulk_keys. key \<in> set fieldNames) \<longrightarrow>
          validExistTableSchema this tableName (JArray items) = Inr ()
          \<and> calls (db (snd (bulkAdd oc_bulk this tableName items)))
               = calls (db this) @ [Transaction ''rw'' tableName (OpBulkAdd items)])"
proof -
  let ?bad = "\<lambda>key. key \<notin> set fieldNames"
  obtain t where t: "getTable this tableName = Inr t"
    using getTableSchema_Inr_getTable [OF schema] by blast
  have name: "tbl_name t = tableName"
    using t by (rule getTable_Inr_name)
  have v_item: "validExistTableSchema this tableName item =
      (case find ?bad keys of None \<Rightarrow> Inr () | Some key \<Rightarrow> Inl (new_Error (key @ msg_invalid_schema)))"
    using validExistTableSchema_find [OF schema, of item] by (simp add: fieldNames keys)
  have v_items: "validExistTableSchema this tableName (JArray items) =
      (case find ?bad bulk_keys of None \<Rightarrow> Inr () | Some key \<Rightarrow> Inl (new_Error (key @ msg_invalid_schema)))"
    using validExistTableSchema_find [OF schema, of "JArray items"] by (simp add: fieldNames bulk_keys)
  have reject: "\<exists>key \<in> set keys. key \<notin> set fieldNames
           \<and> validExistTableSchema this tableName item = Inl (new_Error (key @ msg_invalid_schema))
           \<and> add oc_add this tableName item = (Inl (new_Error (key @ msg_invalid_schema)), this)
           \<and> update oc_upd this tableName primaryKey item
                = (Inl (new_Error (key @ msg_invalid_schema)), this)"
    if "\<exists>key \<in> set keys. key \<notin> set fieldNames"
  proof -
    from that obtain key where key: "find ?bad keys = Some key"
      by (cases "find ?bad keys") (auto simp: find_None_iff)
    then have "key \<in> set keys" "key \<notin> set fieldNames"
      using find_Some_bad [of ?bad keys key] by simp_all
    moreover have "validExistTableSchema this tableName item = Inl (new_Error (key @ msg_invalid_schema))"
      by (simp add: v_item key)
    ultimately show ?thesis
      by (auto simp: add_def update_def)
  qed
  have reject_bulk: "\<exists>key \<in> set bulk_keys. key \<notin> set fieldNames
           \<and> validExistTableSchema this tableName (JArray items)
                = Inl (new_Error (key @ msg_invalid_schema))
           \<and> bulkAdd oc_bulk this tableName items
                = (Inl (new_Error (key @ msg_invalid_schema)), this)"
    if "\<exists>key \<in> set bulk_keys. key \<notin> set fieldNames"
  proof -
    from that obtain key where key: "find ?bad bulk_keys = Some key"
      by (cases "find ?bad bulk_keys") (auto simp: find_None_iff)
    then have "key \<in> set bulk_keys" "key \<notin> set fieldNames"
      using find_Some_bad [of ?bad bulk_keys key] by simp_all
    moreover have "validExistTableSchema this tableName (JArray items)
        = Inl (new_Error (key @ msg_invalid_schema))"
      by (simp add: v_items key)
    ultimately show ?thesis
      by (auto simp: bulkAdd_def)
  qed
  have accept: "validExistTableSchema this tableName item = Inr ()
          \<and> calls (db (snd (add oc_add this tableName item)))
               = calls (db this) @ [Transaction ''rw'' tableName (OpAdd item)]
          \<and> calls (db (snd (update oc_upd this tableName primaryKey item)))
               = calls (db this) @ [Transaction ''rw'' tableName (OpUpdate primaryKey item)]"
    if "\<forall>key \<in> set keys. key \<in> set fieldNames"
  proof -
    from that have "find ?bad keys = None"
      by (simp add: find_None_iff)
    then have "validExistTableSchema this tableName item = Inr ()"
      by (simp add: v_item)
    then show ?thesis
      by (simp add: add_def update_def t name Dexie_transaction_def)
  qed
  have accept_bulk: "validExistTableSchema this tableName (JArray items) = Inr ()
          \<and> calls (db (snd (bulkAdd oc_bulk this tableName items)))
               = calls (db this) @ [Transaction ''rw'' tableName (OpBulkAdd items)]"
    if "\<forall>key \<in> set bulk_keys. key \<in> set fieldNames"
  proof -
    from that have "find ?bad bulk_keys = None"
      by (simp add: find_None_iff)
    then have "validExistTableSchema this tableName (JArray items) = Inr ()"
      by (simp add: v_items)
    then show ?thesis
      by (simp add: bulkAdd_def t name Dexie_transaction_def)
  qed
  from reject reject_bulk accept accept_bulk show ?thesis
    by blast
qed

theorem schema_validation_guards_writes_witness:
  "add (Fulfilled 7) example_proxy ''users''
       (JObject [(''name'', JString ''Kim''), (''email'', JString ''kim@example.org'')])
     = (Inl (new_Error (''email'' @ msg_invalid_schema)), example_proxy)
   \<and> bulkAdd (Fulfilled 8) example_proxy ''users''
       [JObject [(''name'', JString ''Kim'')], JObject [(''nick'', JString ''K'')]]
     = (Inl (new_Error (''nick'' @ msg_invalid_schema)), example_proxy)
   \<and> calls (db (snd (add (Fulfilled 7) example_proxy ''users''
       (JObject [(''name'', JString ''Kim''), (''age'', JNumber 30)]))))
     = calls (db example_proxy)
         @ [Transaction ''rw'' ''users'' (OpAdd (JObject [(''name'', JString ''Kim''), (''age'', JNumber 30)]))]"
proof -
  note schema = example_getTableSchema_users
  have bad: "add (Fulfilled 7) example_proxy ''users''
       (JObject [(''name'', JString ''Kim''), (''email'', JString ''kim@example.org'')])
     = (Inl (new_Error (''email'' @ msg_invalid_schema)), example_proxy)"
    using schema_validation_guards_writes [OF schema refl refl refl,
        where item = "JObject [(''name'', JString ''Kim''), (''email'', JString ''kim@example.org'')]"
          and items = "[]" and oc_add = "Fulfilled 7" and oc_upd = "Fulfilled 0"
          and primaryKey = 0 and oc_bulk = "Fulfilled 8"]
    by (simp add: example_users_def)
  have bad_bulk: "bulkAdd (Fulfilled 8) example_proxy ''users''
       [JObject [(''name'', JString ''Kim'')], JObject [(''nick'', JString ''K'')]]
     = (Inl (new_Error (''nick'' @ msg_invalid_schema)), example_proxy)"
    using schema_validation_guards_writes [OF schema refl refl refl,
        where item = JNull
          and items = "[JObject [(''name'', JString ''Kim'')], JObject [(''nick'', JString ''K'')]]"
          and oc_add = "Fulfilled 7" and oc_upd = "Fulfilled 0"
          and primaryKey = 0 and oc_bulk = "Fulfilled 8"]
    by (simp add: example_users_def)
  have good: "calls (db (snd (add (Fulfilled 7) example_proxy ''users''
       (JObject [(''name'', JString ''Kim''), (''age'', JNumber 30)]))))
     = calls (db example_proxy)
         @ [Transaction ''rw'' ''users'' (OpAdd (JObject [(''name'', JString ''Kim''), (''age'', JNumber 30)]))]"
    using schema_validation_guards_writes [OF schema refl refl refl,
        where item = "JObject [(''name'', JString ''Kim''), (''age'', JNumber 30)]"
          and items = "[]" and oc_add = "Fulfilled 7" and oc_upd = "Fulfilled 0"
          and primaryKey = 0 and oc_bulk = "Fulfilled 8"]
    by (simp add: example_users_def)
  from bad bad_bulk good show ?thesis by simp
qed

text \<open>
  C2. For a registered table, \<^verbatim>\<open>dropTable\<close> closes the handle, hands the library the
  schema that maps the table name to null at the current version plus one, and opens the
  handle again; what the library throws comes back under the drop-failure message. For a
  table that is not registered it throws an error whose message starts with the
  drop-failure message.
\<close>

theorem dropTable_calls:
  "(tableName \<in> set (getTableList this) \<longrightarrow>
      calls (db (snd (dropTable oc this tableName))) =
        calls (db this) @ [Close, VersionStores (getVersionNo this + 1) [(tableName, None)], Open]
      \<and> fst (dropTable oc this tableName) =
          (case st_thrown oc of
             None \<Rightarrow> Inr ()
           | Some e \<Rightarrow> Inl (new_Error (msg_drop_failed @ message e))))
   \<and> (tableName \<notin> set (getTableList this) \<longrightarrow>
      fst (dropTable oc this tableName) =
        Inl (new_Error (msg_drop_failed @ tableName @ msg_invalid_table)))"
proof (intro conjI impI)
  assume "tableName \<in> set (getTableList this)"
  then obtain t where t: "getTable this tableName = Inr t"
    using getTable_known by blast
  show "calls (db (snd (dropTable oc this tableName))) =
        calls (db this) @ [Close, VersionStores (getVersionNo this + 1) [(tableName, None)], Open]"
    by (simp add: dropTable_def t Dexie_version_stores_def Dexie_close_def Dexie_open_def)
  show "fst (dropTable oc this tableName) =
          (case st_thrown oc of
             None \<Rightarrow> Inr ()
           | Some e \<Rightarrow> Inl (new_Error (msg_drop_failed @ message e)))"
    by (simp add: dropTable_def t Dexie_version_stores_def split: option.splits)
next
  assume "tableName \<notin> set (getTableList this)"
  then have "getTable this tableName = Inl (new_Error (tableName @ msg_invalid_table))"
    by (rule getTable_unknown)
  then show "fst (dropTable oc this tableName) =
        Inl (new_Error (msg_drop_failed @ tableName @ msg_invalid_table))"
    by (simp add: dropTable_def new_Error_def)
qed

theorem dropTable_calls_witness:
  "calls (db (snd (dropTable example_stored example_proxy ''users''))) =
     [VersionStores 1 [(''users'', Some ''++id, name, age'')],
      Close, VersionStores 2 [(''users'', None)], Open]
   \<and> fst (dropTable example_stored example_proxy ''orders'') =
       Inl (new_Error (msg_drop_failed @ ''orders'' @ msg_invalid_table))"
proof -
  have known: "''users'' \<in> set (getTableList example_proxy)"
    and unknown: "''orders'' \<notin> set (getTableList example_proxy)"
    by (simp_all add: example_getTableList)
  have "calls (db (snd (dropTable example_stored example_proxy ''users''))) =
          calls (db example_proxy)
            @ [Close, VersionStores (getVersionNo example_proxy + 1) [(''users'', None)], Open]"
    using dropTable_calls [of "''users''" example_proxy example_stored] known by blast
  moreover have "fst (dropTable example_stored example_proxy ''orders'') =
       Inl (new_Error (msg_drop_failed @ ''orders'' @ msg_invalid_table))"
    using dropTable_calls [of "''orders''" example_proxy example_stored] unknown by blast
  ultimately show ?thesis
    by (simp add: example_proxy_eq getVersionNo_def)
qed

text \<open>
  C3. \<^verbatim>\<open>createTable\<close> hands its mapping, as it is, to the versioning call of the library,
  at the current version number when that is not zero and at version 1 otherwise; it does
  not add one to the version. What the library throws, \<^verbatim>\<open>createTable\<close> throws
  unchanged.
\<close>

theorem createTable_passes_schema:
  "calls (db (snd (createTable oc this tableSchema))) =
     calls (db this) @ [VersionStores (if getVersionNo this = 0 then 1 else getVersionNo this) tableSchema]
   \<and> fst (createTable oc this tableSchema) = (case st_thrown oc of Some e \<Rightarrow> Inl e | None \<Rightarrow> Inr ())"
  by (simp add: createTable_def Dexie_version_stores_def)

theorem createTable_passes_schema_witness:
  "calls (db (snd (createTable example_stored (useIndexedDB ''myDB'') [(''users'', Some ''++id, name, age'')])))
     = [VersionStores 1 [(''users'', Some ''++id, name, age'')]]
   \<and> calls (db (snd (createTable example_stored example_proxy [(''orders'', Some ''++id'')])))
     = [VersionStores 1 [(''users'', Some ''++id, name, age'')], VersionStores 1 [(''orders'', Some ''++id'')]]"
  using createTable_passes_schema [of example_stored "useIndexedDB ''myDB''" "[(''users'', Some ''++id, name, age'')]"]
        createTable_passes_schema [of example_stored example_proxy "[(''orders'', Some ''++id'')]"]
  by (simp add: example_proxy_eq getVersionNo_def useIndexedDB_def new_IndexedDBProxy_def new_Dexie_def)

text \<open>
  C4. \<^verbatim>\<open>updateTableSchema\<close> first looks every table name of the mapping up. When all
  are registered it closes the handle and hands the mapping to the versioning call at
  the current version plus one, and a throw of the library comes back under the
  update-failure message. When some name is not registered it throws the update-failure
  message followed by the message of \<^verbatim>\<open>getTable\<close> for such a name, and the handle
  has received nothing.
\<close>

theorem updateTableSchema_checks_then_migrates:
  "((\<forall>tableName \<in> set (map fst schema). tableName \<in> set (getTableList this)) \<longrightarrow>
      calls (db (snd (updateTableSchema oc this schema))) =
        calls (db this) @ [Close, VersionStores (getVersionNo this + 1) schema]
      \<and> fst (updateTableSchema oc this schema) =
          (case st_thrown oc of
             None \<Rightarrow> Inr ()
           | Some e \<Rightarrow> Inl (new_Error (msg_update_schema_failed @ message e))))
   \<and> ((\<exists>tableName \<in> set (map fst schema). tableName \<notin> set (getTableList this)) \<longrightarrow>
      (\<exists>tableName \<in> set (map fst schema). tableName \<notin> set (getTableList this)
         \<and> updateTableSchema oc this schema =
             (Inl (new_Error (msg_update_schema_failed @ tableName @ msg_invalid_table)), this)))"
proof (intro conjI impI)
  let ?unknown = "\<lambda>tableName. tableName \<notin> set (getTableList this)"
  assume "\<forall>tableName \<in> set (map fst schema). tableName \<in> set (getTableList this)"
  then have "find ?unknown (map fst schema) = None"
    by (simp add: find_None_iff)
  then have ok: "validExistTable this schema = Inr ()"
    by (simp add: validExistTable_def validExistTable_loop_find)
  show "calls (db (snd (updateTableSchema oc this schema))) =
        calls (db this) @ [Close, VersionStores (getVersionNo this + 1) schema]"
    by (simp add: updateTableSchema_def ok Dexie_version_stores_def Dexie_close_def)
  show "fst (updateTableSchema oc this schema) =
          (case st_thrown oc of
             None \<Rightarrow> Inr ()
           | Some e \<Rightarrow> Inl (new_Error (msg_update_schema_failed @ message e)))"
    by (simp add: updateTableSchema_def ok Dexie_version_stores_def split: option.splits)
next
  let ?unknown = "\<lambda>tableName. tableName \<notin> set (getTableList this)"
  assume "\<exists>tableName \<in> set (map fst schema). tableName \<notin> set (getTableList this)"
  then obtain n where n: "find ?unknown (map fst schema) = Some n"
    by (cases "find ?unknown (map fst schema)") (auto simp: find_None_iff)
  then have "n \<in> set (map fst schema)" "n \<notin> set (getTableList this)"
    using find_Some_bad [of ?unknown "map fst schema" n] by simp_all
  moreover have "validExistTable this schema = Inl (new_Error (n @ msg_invalid_table))"
    by (simp add: validExistTable_def validExistTable_loop_find n)
  then have "updateTableSchema oc this schema =
      (Inl (new_Error (msg_update_schema_failed @ n @ msg_invalid_table)), this)"
    by (simp add: updateTableSchema_def new_Error_def)
  ultimately show "\<exists>tableName \<in> set (map fst schema). tableName \<notin> set (getTableList this)
         \<and> updateTableSchema oc this schema =
             (Inl (new_Error (msg_update_schema_failed @ tableName @ msg_invalid_table)), this)"
    by blast
qed

theorem updateTableSchema_checks_then_migrates_witness:
  "calls (db (snd (updateTableSchema example_stored example_proxy [(''users'', Some ''++id, name'')])))
     = calls (db example_proxy) @ [Close, VersionStores 2 [(''users'', Some ''++id, name'')]]
   \<and> updateTableSchema example_stored example_proxy
        [(''users'', Some ''++id, name''), (''orders'', Some ''++id'')]
     = (Inl (new_Error (msg_update_schema_failed @ ''orders'' @ msg_invalid_table)), example_proxy)"
proof -
  have "calls (db (snd (updateTableSchema example_stored example_proxy [(''users'', Some ''++id, name'')])))
     = calls (db example_proxy)
         @ [Close, VersionStores (getVersionNo example_proxy + 1) [(''users'', Some ''++id, name'')]]"
    using updateTableSchema_checks_then_migrates
      [of "[(''users'', Some ''++id, name'')]" example_proxy example_stored]
    by (simp add: example_getTableList)
  moreover have "updateTableSchema example_stored example_proxy
        [(''users'', Some ''++id, name''), (''orders'', Some ''++id'')]
     = (Inl (new_Error (msg_update_schema_failed @ ''orders'' @ msg_invalid_table)), example_proxy)"
    using updateTableSchema_checks_then_migrates
      [of "[(''users'', Some ''++id, name''), (''orders'', Some ''++id'')]" example_proxy example_stored]
    by (simp add: example_getTableList)
  ultimately show ?thesis
    by (simp add: example_proxy_eq getVersionNo_def)
qed

text \<open>
  C5. After \<^verbatim>\<open>install\<close> the global property \<^verbatim>\<open>$indexedDB\<close> is a function that
  returns, for every database name, what \<^verbatim>\<open>useIndexedDB\<close> returns: a proxy built by
  the constructor over a new handle of that name.
\<close>

theorem plugin_installs_factory:
  "globalProperties (config (install app)) ''$indexedDB'' = Some useIndexedDB
   \<and> useIndexedDB dbName = new_IndexedDBProxy dbName
   \<and> db (useIndexedDB dbName) = new_Dexie dbName
   \<and> getDatabaseName (useIndexedDB dbName) = dbName"
proof -
  have "globalProperties (config (install app)) ''$indexedDB'' = Some useIndexedDB"
    by (simp add: install_def)
  moreover have "getDatabaseName (useIndexedDB dbName) = dbName"
    by (simp add: useIndexedDB_def new_IndexedDBProxy_def new_Dexie_def getDatabaseName_def)
  ultimately show ?thesis
    by (simp add: useIndexedDB_def new_IndexedDBProxy_def)
qed

theorem plugin_installs_factory_witness:
  "\<exists>f. globalProperties (config (install \<lparr>config = \<lparr>globalProperties = Map.empty\<rparr>\<rparr>)) ''$indexedDB''
          = Some f
       \<and> getDatabaseName (f ''myDB'') = ''myDB''"
  using plugin_installs_factory [of "\<lparr>config = \<lparr>globalProperties = Map.empty\<rparr>\<rparr>" "''myDB''"]
  by blast

text \<open>
  C6. For a table name that is not registered, \<^verbatim>\<open>getTable\<close> throws the error whose
  message is the name followed by the invalid-table text, and every public operation that
  resolves a table by name throws as well, before the handle receives anything;
  \<^verbatim>\<open>get\<close> puts its own failure text in front of that message.
\<close>

theorem unknown_table_fails:
  assumes "tableName \<notin> set (getTableList this)"
  shows "getTable this tableName = Inl (new_Error (tableName @ msg_invalid_table))
    \<and> getTableSchema this tableName = Inl (new_Error (tableName @ msg_invalid_table))
    \<and> clearTable this tableName = (Inl (new_Error (tableName @ msg_invalid_table)), this)
    \<and> get oc_get this tableName option
        = (Inl (new_Error (msg_get_failed @ tableName @ msg_invalid_table)), this)
    \<and> liveQuery this tableName queryCallback = Inl (new_Error (tableName @ msg_invalid_table))
    \<and> add oc_add this tableName item = (Inl (new_Error (tableName @ msg_invalid_table)), this)
    \<and> update oc_upd this tableName primaryKey item
        = (Inl (new_Error (tableName @ msg_invalid_table)), this)
    \<and> delete oc_del this tableName primaryKey
        = (Inl (new_Error (tableName @ msg_invalid_table)), this)
    \<and> bulkGet oc_bget this tableName primaryKeys
        = (Inl (new_Error (tableName @ msg_invalid_table)), this)
    \<and> bulkAdd oc_badd this tableName items
        = (Inl (new_Error (tableName @ msg_invalid_table)), this)
    \<and> bulkDelete oc_bdel this tableName primaryKeys
        = (Inl (new_Error (tableName @ msg_invalid_table)), this)"
proof -
  have t: "getTable this tableName = Inl (new_Error (tableName @ msg_invalid_table))"
    using assms by (rule getTable_unknown)
  then have s: "getTableSchema this tableName = Inl (new_Error (tableName @ msg_invalid_table))"
    by (simp add: getTableSchema_def)
  then have v: "validExistTableSchema this tableName checkData
      = Inl (new_Error (tableName @ msg_invalid_table))" for checkData
    by (simp add: validExistTableSchema_def)
  show ?thesis
    by (simp add: t s v clearTable_def get_def liveQuery_def add_def update_def delete_def
        bulkGet_def bulkAdd_def bulkDelete_def new_Error_def)
qed

theorem unknown_table_fails_witness:
  "getTable example_proxy ''orders'' = Inl (new_Error (''orders'' @ msg_invalid_table))
   \<and> get (Inr (Fulfilled JUndefined)) example_proxy ''orders'' (JNumber 1)
       = (Inl (new_Error (msg_get_failed @ ''orders'' @ msg_invalid_table)), example_proxy)
   \<and> bulkDelete (Fulfilled ()) example_proxy ''orders'' [1, 2]
       = (Inl (new_Error (''orders'' @ msg_invalid_table)), example_proxy)"
proof -
  have "''orders'' \<notin> set (getTableList example_proxy)"
    by (simp add: example_getTableList)
  from unknown_table_fails [OF this,
      where oc_get = "Inr (Fulfilled JUndefined)" and option = "JNumber 1"
        and oc_bdel = "Fulfilled ()" and primaryKeys = "[1, 2]"]
  show ?thesis by blast
qed

text \<open>
  C7. When the validation has passed and the bulk insertion of the library rejects with a
  \<^verbatim>\<open>BulkError\<close> that lists failures by position, the promise \<^verbatim>\<open>bulkAdd\<close> returns
  rejects with the error whose message names the first listed position and the failure
  there, in the format of the source; when the insertion fulfils, the promise carries the
  last key.
\<close>

theorem bulkAdd_formats_bulk_error:
  assumes valid: "validExistTableSchema this tableName (JArray items) = Inr ()"
    and bulk: "err_name e = ''BulkError''"
    and failures: "failuresByPos e = (pos, failure) # others"
  shows "fst (bulkAdd (Rejected e) this tableName items) =
           Inr (Rejected (new_Error (msg_bulk_job @ dec pos @ msg_bulk_failed @ failure)))
    \<and> pos \<in> fst ` set (failuresByPos e)
    \<and> fst (bulkAdd (Fulfilled lastKey) this tableName items) = Inr (Fulfilled (Some lastKey))"
proof -
  obtain t where t: "getTable this tableName = Inr t"
    using validExistTableSchema_Inr_getTable [OF valid] by blast
  show ?thesis
    by (simp add: bulkAdd_def valid t Dexie_transaction_def promise_catch_named_def
        bulkError_handler_def bulk failures)
qed

theorem bulkAdd_formats_bulk_error_witness:
  "fst (bulkAdd
         (Rejected (Error ''BulkError'' ''users.bulkAdd(): 1 of 2 operations failed''
            [(1, ''ConstraintError: Key already exists in the object store.'')]))
         example_proxy ''users''
         [JObject [(''id'', JNumber 1), (''name'', JString ''Kim'')],
          JObject [(''id'', JNumber 1), (''name'', JString ''Lee'')]])
     = Inr (Rejected (new_Error (msg_bulk_job @ ''1'' @ msg_bulk_failed
              @ ''ConstraintError: Key already exists in the object store.'')))"
proof -
  have valid: "validExistTableSchema example_proxy ''users''
      (JArray [JObject [(''id'', JNumber 1), (''name'', JString ''Kim'')],
               JObject [(''id'', JNumber 1), (''name'', JString ''Lee'')]]) = Inr ()"
    by (simp add: validExistTableSchema_def example_getTableSchema_users example_users_def)
  have one: "dec (Suc 0) = ''1''"
    by code_simp
  from bulkAdd_formats_bulk_error [OF valid, of
      "Error ''BulkError'' ''users.bulkAdd(): 1 of 2 operations failed''
         [(1, ''ConstraintError: Key already exists in the object store.'')]"
      1 "''ConstraintError: Key already exists in the object store.''" "[]" 0]
  show ?thesis by (simp add: one)
qed

text \<open>
  C8. For a record that is not an array, the validation of \<^verbatim>\<open>add\<close> gives what the
  validation of \<^verbatim>\<open>bulkAdd\<close> gives on the one-element list of that record, so
  \<^verbatim>\<open>add\<close> throws exactly when \<^verbatim>\<open>bulkAdd\<close> does, and then the same error.
\<close>

theorem add_validates_like_bulkAdd_singleton:
  assumes "\<not> isArray x"
  shows "validExistTableSchema this tableName x = validExistTableSchema this tableName (JArray [x])
    \<and> (isl (fst (add oc_add this tableName x)) \<longleftrightarrow> isl (fst (bulkAdd oc_bulk this tableName [x])))
    \<and> (\<forall>e. fst (add oc_add this tableName x) = Inl e
            \<longleftrightarrow> fst (bulkAdd oc_bulk this tableName [x]) = Inl e)"
proof -
  have same: "validExistTableSchema this tableName x = validExistTableSchema this tableName (JArray [x])"
    using assms by (simp add: validExistTableSchema_def)
  show ?thesis
  proof (cases "validExistTableSchema this tableName x")
    case (Inl e)
    moreover from Inl same have "validExistTableSchema this tableName (JArray [x]) = Inl e"
      by simp
    ultimately show ?thesis
      by (simp add: add_def bulkAdd_def)
  next
    case (Inr u)
    then obtain t where t: "getTable this tableName = Inr t"
      using validExistTableSchema_Inr_getTable by blast
    from Inr same have "validExistTableSchema this tableName (JArray [x]) = Inr u"
      by simp
    with Inr t show ?thesis
      by (simp add: add_def bulkAdd_def Dexie_transaction_def)
  qed
qed

theorem add_validates_like_bulkAdd_singleton_witness:
  "validExistTableSchema example_proxy ''users'' (JObject [(''email'', JString ''kim@example.org'')])
     = validExistTableSchema example_proxy ''users'' (JArray [JObject [(''email'', JString ''kim@example.org'')]])
   \<and> isl (fst (add (Fulfilled 7) example_proxy ''users'' (JObject [(''email'', JString ''kim@example.org'')])))
   \<and> isl (fst (bulkAdd (Fulfilled 7) example_proxy ''users'' [JObject [(''email'', JString ''kim@example.org'')]]))"
proof -
  have "isl (fst (add (Fulfilled 7) example_proxy ''users'' (JObject [(''email'', JString ''kim@example.org'')])))"
    by (simp add: add_def validExistTableSchema_def example_getTableSchema_users example_users_def)
  with add_validates_like_bulkAdd_singleton
    [of "JObject [(''email'', JString ''kim@example.org'')]" example_proxy "''users''"
        "Fulfilled 7" "Fulfilled 7"]
  show ?thesis by simp
qed

text \<open>
  C9. Whatever the table name and whatever the library answers, the last call the handle
  receives from \<^verbatim>\<open>dropTable\<close> is \<^verbatim>\<open>open()\<close>.
\<close>

theorem dropTable_always_reopens:
  "calls (db (snd (dropTable oc this tableName))) \<noteq> []
   \<and> last (calls (db (snd (dropTable oc this tableName)))) = Open"
  by (simp add: dropTable_def Dexie_open_def split: sum.splits prod.splits)

theorem dropTable_always_reopens_witness:
  "last (calls (db (snd (dropTable example_stored example_proxy ''users'')))) = Open
   \<and> last (calls (db (snd (dropTable example_stored example_proxy ''orders'')))) = Open
   \<and> last (calls (db (snd (dropTable
        \<lparr>st_thrown = Some (Error ''SchemaError'' ''Cannot add version when database is open'' []),
         st_verno = 1, st_tables = [example_users]\<rparr> example_proxy ''users'')))) = Open"
  using dropTable_always_reopens [of example_stored example_proxy "''users''"]
    dropTable_always_reopens [of example_stored example_proxy "''orders''"]
    dropTable_always_reopens [of
        "\<lparr>st_thrown = Some (Error ''SchemaError'' ''Cannot add version when database is open'' []),
         st_verno = 1, st_tables = [example_users]\<rparr>" example_proxy "''users''"]
  by simp

text \<open>
  C10. A proxy made by \<^verbatim>\<open>useIndexedDB\<close> or by the constructor for a database name
  answers \<^verbatim>\<open>getDatabaseName\<close> with that name, and no public operation, and so no
  sequence of them, changes the answer.
\<close>

theorem database_name_fixed:
  "getDatabaseName (useIndexedDB d) = d
   \<and> getDatabaseName (new_IndexedDBProxy d) = d
   \<and> getDatabaseName (perform this op) = getDatabaseName this
   \<and> getDatabaseName (perform_all (useIndexedDB d) ops) = d"
  by (simp add: perform_keeps_name perform_all_keeps_name)
     (simp add: useIndexedDB_def new_IndexedDBProxy_def new_Dexie_def getDatabaseName_def)

theorem database_name_fixed_witness:
  "getDatabaseName (perform_all (useIndexedDB ''myDB'')
      [CallCreateTable example_stored [(''users'', Some ''++id, name, age'')],
       CallAdd (Fulfilled 1) ''users'' (JObject [(''name'', JString ''Kim'')]),
       CallDropTable example_stored ''users'']) = ''myDB''"
  using database_name_fixed [of "''myDB''" "useIndexedDB ''myDB''" CallGetTableList
      "[CallCreateTable example_stored [(''users'', Some ''++id, name, age'')],
       CallAdd (Fulfilled 1) ''users'' (JObject [(''name'', JString ''Kim'')]),
       CallDropTable example_stored ''users'']"]
  by simp

end
